theory Spec2Isabelle
  imports Complex_Main "HOL-Library.Word"
begin

section \<open>JavaScript strings\<close>

text \<open>
  A JavaScript string is a sequence of 16-bit code units. Literals of the source are
  written \<open>u16 ''...''\<close>: the ASCII text, one code unit per character.
\<close>

type_synonym jschar = "16 word"
type_synonym jsstring = "jschar list"

definition u16 :: "string \<Rightarrow> jsstring" where
  "u16 s = map (\<lambda>c. of_nat (of_char c)) s"

text \<open>
  White space as \<open>String.prototype.trim\<close> and \<open>parseInt\<close> understand it: the
  WhiteSpace and LineTerminator code points of ECMAScript (TAB, VT, FF, SP, NBSP, BOM, the
  Unicode space separators, LF, CR, LS, PS).
\<close>

definition isWhiteSpace :: "jschar \<Rightarrow> bool" where
  "isWhiteSpace c \<longleftrightarrow>
     c \<in> {0x0009, 0x000A, 0x000B, 0x000C, 0x000D, 0x0020, 0x00A0, 0x1680,
          0x2000, 0x2001, 0x2002, 0x2003, 0x2004, 0x2005, 0x2006, 0x2007,
          0x2008, 0x2009, 0x200A, 0x2028, 0x2029, 0x202F, 0x205F, 0x3000, 0xFEFF}"

text \<open>\<open>s.trim()\<close>: white space removed at both ends.\<close>

definition trim :: "jsstring \<Rightarrow> jsstring" where
  "trim s = rev (dropWhile isWhiteSpace (rev (dropWhile isWhiteSpace s)))"

text \<open>
  \<open>s.split(sep)\<close> for a separator of one code unit: the pieces between the
  separators, in order; the empty string gives one empty piece. \<open>piece\<close> is the piece
  being read.
\<close>

fun split_from :: "jschar \<Rightarrow> jsstring \<Rightarrow> jsstring \<Rightarrow> jsstring list" where
  "split_from sep piece [] = [piece]"
| "split_from sep piece (c # cs) =
     (if c = sep then piece # split_from sep [] cs else split_from sep (piece @ [c]) cs)"

definition split_str :: "jschar \<Rightarrow> jsstring \<Rightarrow> jsstring list" where
  "split_str sep s = split_from sep [] s"

text \<open>\<open>s.includes(sub)\<close>: \<open>sub\<close> occurs in \<open>s\<close> as a contiguous run.\<close>

fun startsWith :: "jsstring \<Rightarrow> jsstring \<Rightarrow> bool" where
  "startsWith s [] = True"
| "startsWith [] (b # bs) = False"
| "startsWith (a # as) (b # bs) = (a = b \<and> startsWith as bs)"

fun includes_str :: "jsstring \<Rightarrow> jsstring \<Rightarrow> bool" where
  "includes_str [] sub = (sub = [])"
| "includes_str (c # cs) sub = (startsWith (c # cs) sub \<or> includes_str cs sub)"

text \<open>The decimal rendering of an array index, as property keys have it.\<close>

fun decimal :: "nat \<Rightarrow> jsstring" where
  "decimal n =
     (if n < 10 then [of_nat (48 + n)]
      else decimal (n div 10) @ [of_nat (48 + n mod 10)])"

subsection \<open>parseInt\<close>

text \<open>
  \<open>parseInt(string)\<close> with no radix, after ECMAScript: leading white space is skipped,
  one sign is read, a prefix \<open>0x\<close> or \<open>0X\<close> selects radix 16 (radix 10 otherwise), and
  the longest run of digits of that radix is the numeral; whatever follows it is ignored.
  No digit at all gives NaN, which is \<open>None\<close> here. The value is an \<open>int\<close>: the
  source only compares it with 0 and 1, and the rounding of a long numeral to a double
  never moves a value to or from 0 or 1. JavaScript's \<open>-0\<close> is the integer 0
  (\<open>-0 !== 0\<close> is false).
\<close>

definition digitValue :: "jschar \<Rightarrow> nat option" where
  "digitValue c =
     (if 0x30 \<le> c \<and> c \<le> 0x39 then Some (unat c - 0x30)
      else if 0x61 \<le> c \<and> c \<le> 0x7A then Some (unat c - 0x61 + 10)
      else if 0x41 \<le> c \<and> c \<le> 0x5A then Some (unat c - 0x41 + 10)
      else None)"

definition isRadixDigit :: "nat \<Rightarrow> jschar \<Rightarrow> bool" where
  "isRadixDigit R c = (case digitValue c of None \<Rightarrow> False | Some d \<Rightarrow> d < R)"

definition numeralValue :: "nat \<Rightarrow> jsstring \<Rightarrow> nat" where
  "numeralValue R Z = foldl (\<lambda>acc c. acc * R + the (digitValue c)) 0 Z"

definition parseInt :: "jsstring \<Rightarrow> int option" where
  "parseInt inputString =
     (let S = dropWhile isWhiteSpace inputString;
          sign = (if S \<noteq> [] \<and> hd S = 0x2D then - 1 else 1 :: int);
          S1 = (if S \<noteq> [] \<and> (hd S = 0x2B \<or> hd S = 0x2D) then tl S else S);
          hex = (2 \<le> length S1 \<and> (take 2 S1 = u16 ''0x'' \<or> take 2 S1 = u16 ''0X''));
          R = (if hex then 16 else 10);
          S2 = (if hex then drop 2 S1 else S1);
          Z = takeWhile (isRadixDigit R) S2
      in if Z = [] then None else Some (sign * int (numeralValue R Z)))"

section \<open>JSON values and objects\<close>

text \<open>
  The values \<open>JSON.parse\<close> produces and \<open>res.json\<close> sends. An object is its list
  of properties; a property is read with \<open>map_of\<close> (\<open>None\<close> is \<open>undefined\<close>) and
  written with \<open>set_prop\<close>, which replaces the value of a key that is there and appends
  a new key otherwise. The list keeps the order of insertion, which is the order of
  enumeration of JavaScript but for keys that are array indices; no statement depends on
  it. Numbers are reals: no arithmetic is done on them.
\<close>

datatype json =
    JNull
  | JBool bool
  | JNumber real
  | JString jsstring
  | JArray "json list"
  | JObject "(jsstring \<times> json) list"

type_synonym obj = "(jsstring \<times> json) list"

fun set_prop :: "jsstring \<Rightarrow> json \<Rightarrow> obj \<Rightarrow> obj" where
  "set_prop k v [] = [(k, v)]"
| "set_prop k v (p # ps) = (if fst p = k then (k, v) # ps else p # set_prop k v ps)"

text \<open>
  The own enumerable properties that \<open>{...value}\<close> copies: those of an object, the
  indexed elements of an array, the indexed code units of a string, none of \<open>null\<close>,
  a boolean or a number.
\<close>

fun indexed :: "nat \<Rightarrow> json list \<Rightarrow> obj" where
  "indexed i [] = []"
| "indexed i (v # vs) = (decimal i, v) # indexed (Suc i) vs"

fun spread :: "json \<Rightarrow> obj" where
  "spread (JObject ps) = ps"
| "spread (JArray vs) = indexed 0 vs"
| "spread (JString s) = indexed 0 (map (\<lambda>c. JString [c]) s)"
| "spread v = []"

text \<open>Truthiness, as \<open>!value\<close> tests it; \<open>None\<close> is \<open>undefined\<close>.\<close>

fun truthy :: "json option \<Rightarrow> bool" where
  "truthy None = False"
| "truthy (Some JNull) = False"
| "truthy (Some (JBool b)) = b"
| "truthy (Some (JNumber r)) = (r \<noteq> 0)"
| "truthy (Some (JString s)) = (s \<noteq> [])"
| "truthy (Some (JArray vs)) = True"
| "truthy (Some (JObject ps)) = True"

section \<open>The server\<close>

text \<open>
  The process keeps one variable, \<open>currentNonce\<close> (\<open>None\<close> is \<open>null\<close>). Every call that
  leaves the process (the retrieval service, the completion service, the chain) is
  written to \<open>calls\<close>, oldest first, with the arguments that decide it; the prompts are
  fixed templates over the arguments recorded. What the outside answers is given to each
  function as a world: for every call, the message of the error it throws (\<open>Inl\<close>) or
  the value it returns (\<open>Inr\<close>). A world is any answer whatever, so a statement for all
  worlds holds of every chain and every service. Every error thrown has a message, as the
  errors of axios, openai and ethers have.
\<close>

type_synonym error = jsstring

datatype call =
    PerplexityPost json
  | GenerationCompletion json jsstring
  | AdjudicationCompletion json jsstring
  | GetPredictionDetails jsstring
  | GetTransactionCount
  | CreatePrediction "json option list" nat
  | FinalizePrediction jsstring int
  | TxWait jsstring

record server =
  currentNonce :: "nat option"
  calls :: "call list"

definition record_call :: "call \<Rightarrow> server \<Rightarrow> server" where
  "record_call c s = s\<lparr>calls := calls s @ [c]\<rparr>"

subsection \<open>getPerplexityData\<close>

definition getPerplexityData ::
  "error + jsstring \<Rightarrow> json \<Rightarrow> server \<Rightarrow> (error + jsstring) \<times> server" where
  "getPerplexityData reply query s =
     (let s1 = record_call (PerplexityPost query) s
      in case reply of
           Inl e \<Rightarrow> (Inl (u16 ''Failed to fetch data from Perplexity: '' @ e), s1)
         | Inr content \<Rightarrow> (Inr content, s1))"

subsection \<open>generatePredictions\<close>

text \<open>
  \<open>JSON.parse\<close> is a parameter, \<open>parse\<close>: the message of the SyntaxError or the value.
  A value that is not an array has no \<open>map\<close> method, and the call throws a TypeError
  (the messages are those of V8).
\<close>

record generation_world =
  perplexity :: "error + jsstring"
  completion :: "error + jsstring"

definition withPolicy :: "json \<Rightarrow> obj" where
  "withPolicy prediction =
     set_prop (u16 ''optionsCount'') (JNumber 2)
       (set_prop (u16 ''predictionType'') (JNumber 0)
         (set_prop (u16 ''maxVotes'') (JNumber 1000)
           (set_prop (u16 ''minVotes'') (JNumber 1) (spread prediction))))"

definition generationFailed :: "error \<Rightarrow> error" where
  "generationFailed e = u16 ''Failed to generate predictions: '' @ e"

definition mapPredictions :: "json \<Rightarrow> error + obj list" where
  "mapPredictions predictions =
     (case predictions of
        JArray items \<Rightarrow> Inr (map withPolicy items)
      | JNull \<Rightarrow>
          Inl (u16 ''Cannot read properties of null (reading '' @ [0x27] @ u16 ''map''
                 @ [0x27] @ u16 '')'')
      | _ \<Rightarrow> Inl (u16 ''predictions.map is not a function''))"

definition generatePredictions ::
  "(jsstring \<Rightarrow> error + json) \<Rightarrow> generation_world \<Rightarrow> json \<Rightarrow> server
     \<Rightarrow> (error + obj list) \<times> server" where
  "generatePredictions parse w topic s =
     (case getPerplexityData (perplexity w) topic s of
        (Inl e, s1) \<Rightarrow> (Inl (generationFailed e), s1)
      | (Inr perplexityData, s1) \<Rightarrow>
          (let s2 = record_call (GenerationCompletion topic perplexityData) s1
           in case completion w of
                Inl e \<Rightarrow> (Inl (generationFailed e), s2)
              | Inr content \<Rightarrow>
                  (case parse content of
                     Inl e \<Rightarrow> (Inl (generationFailed e), s2)
                   | Inr predictions \<Rightarrow>
                       (case mapPredictions predictions of
                          Inl e \<Rightarrow> (Inl (generationFailed e), s2)
                        | Inr normalized \<Rightarrow> (Inr normalized, s2)))))"

subsection \<open>createPredictionOnContract\<close>

text \<open>
  The chain during one submission: what \<open>wallet.getTransactionCount()\<close> answers (asked
  only when \<open>currentNonce\<close> is \<open>null\<close>), what \<open>contract.createPrediction\<close> answers (the
  hash of the transaction accepted for broadcast) and what \<open>tx.wait()\<close> answers (the
  block number of the receipt).
\<close>

record chain_world =
  transactionCount :: "error + nat"
  sent :: "error + jsstring"
  confirmed :: "error + nat"

definition contractArgs :: "obj \<Rightarrow> json option list" where
  "contractArgs prediction =
     map (\<lambda>k. map_of prediction (u16 k))
       [''description'', ''duration'', ''minVotes'', ''maxVotes'', ''predictionType'',
        ''optionsCount'', ''tags'']"

definition staleSequence :: "error \<Rightarrow> bool" where
  "staleSequence e = includes_str e (u16 ''nonce too low'')"

text \<open>The \<open>catch\<close> block: the nonce is forgotten on a stale sequence, the error rethrown.\<close>

definition createFailed :: "error \<Rightarrow> server \<Rightarrow> (error + jsstring) \<times> server" where
  "createFailed e s =
     (Inl (u16 ''Failed to create prediction on contract: '' @ e),
      if staleSequence e then s\<lparr>currentNonce := None\<rparr> else s)"

text \<open>\<open>currentNonce++\<close>; on \<open>null\<close> it gives 1.\<close>

definition increment :: "nat option \<Rightarrow> nat option" where
  "increment n = (case n of None \<Rightarrow> Some 1 | Some k \<Rightarrow> Some (k + 1))"

definition createPredictionOnContract ::
  "chain_world \<Rightarrow> obj \<Rightarrow> server \<Rightarrow> (error + jsstring) \<times> server" where
  "createPredictionOnContract w prediction s =
     (case (case currentNonce s of
              Some n \<Rightarrow> (Inr n, s)
            | None \<Rightarrow>
                (let s0 = record_call GetTransactionCount s
                 in case transactionCount w of
                      Inl e \<Rightarrow> (Inl e, s0)
                    | Inr c \<Rightarrow> (Inr c, s0\<lparr>currentNonce := Some c\<rparr>))) of
        (Inl e, s1) \<Rightarrow> createFailed e s1
      | (Inr nonce, s1) \<Rightarrow>
          (let s2 = record_call (CreatePrediction (contractArgs prediction) nonce) s1
           in case sent w of
                Inl e \<Rightarrow> createFailed e s2
              | Inr txHash \<Rightarrow>
                  (let s3 = s2\<lparr>currentNonce := increment (currentNonce s2)\<rparr>;
                       s4 = record_call (TxWait txHash) s3
                   in case confirmed w of
                        Inl e \<Rightarrow> createFailed e s4
                      | Inr blockNumber \<Rightarrow> (Inr txHash, s4))))"

text \<open>
  The same function between its suspension points. An \<open>async\<close> function runs until
  its next \<open>await\<close> and gives the thread away there, so another request may run before
  it goes on. \<open>resume\<close> runs one task from the point where it stands to its next
  \<open>await\<close>, taking the answer it was waiting for from its world.
\<close>

datatype task =
    Begin obj
  | AwaitCount obj
  | AwaitSend obj
  | AwaitConfirm jsstring
  | Finished "error + jsstring"

definition finish :: "(error + jsstring) \<times> server \<Rightarrow> task \<times> server" where
  "finish r = (Finished (fst r), snd r)"

fun resume :: "chain_world \<Rightarrow> task \<Rightarrow> server \<Rightarrow> task \<times> server" where
  "resume w (Begin prediction) s =
     (case currentNonce s of
        None \<Rightarrow> (AwaitCount prediction, record_call GetTransactionCount s)
      | Some n \<Rightarrow>
          (AwaitSend prediction,
           record_call (CreatePrediction (contractArgs prediction) n) s))"
| "resume w (AwaitCount prediction) s =
     (case transactionCount w of
        Inl e \<Rightarrow> finish (createFailed e s)
      | Inr c \<Rightarrow>
          (AwaitSend prediction,
           record_call (CreatePrediction (contractArgs prediction) c)
             (s\<lparr>currentNonce := Some c\<rparr>)))"
| "resume w (AwaitSend prediction) s =
     (case sent w of
        Inl e \<Rightarrow> finish (createFailed e s)
      | Inr txHash \<Rightarrow>
          (AwaitConfirm txHash,
           record_call (TxWait txHash) (s\<lparr>currentNonce := increment (currentNonce s)\<rparr>)))"
| "resume w (AwaitConfirm txHash) s =
     (case confirmed w of
        Inl e \<Rightarrow> finish (createFailed e s)
      | Inr blockNumber \<Rightarrow> (Finished (Inr txHash), s))"
| "resume w (Finished r) s = (Finished r, s)"

text \<open>
  Two submissions in flight, \<open>A\<close> with world \<open>wA\<close> and \<open>B\<close> with world \<open>wB\<close>. The
  schedule says which of them runs next: \<open>True\<close> for \<open>A\<close>, \<open>False\<close> for \<open>B\<close>.
\<close>

fun interleave ::
  "chain_world \<Rightarrow> chain_world \<Rightarrow> bool list \<Rightarrow> task \<times> task \<times> server
     \<Rightarrow> task \<times> task \<times> server" where
  "interleave wA wB [] sys = sys"
| "interleave wA wB (turn # schedule) (tA, tB, s) =
     (if turn
      then interleave wA wB schedule (fst (resume wA tA s), tB, snd (resume wA tA s))
      else interleave wA wB schedule (tA, fst (resume wB tB s), snd (resume wB tB s)))"

text \<open>The nonces of the transactions submitted, in the order of submission.\<close>

fun nonces :: "call list \<Rightarrow> nat list" where
  "nonces [] = []"
| "nonces (CreatePrediction args n # cs) = n # nonces cs"
| "nonces (c # cs) = nonces cs"

text \<open>A run of sequential submissions, each with the chain as it answers during it.\<close>

fun submitAll :: "(chain_world \<times> obj) list \<Rightarrow> server \<Rightarrow> server" where
  "submitAll [] s = s"
| "submitAll ((w, prediction) # rest) s =
     submitAll rest (snd (createPredictionOnContract w prediction s))"

subsection \<open>determineOutcome\<close>

definition outcomeFailed :: "error \<Rightarrow> error" where
  "outcomeFailed e = u16 ''Failed to determine outcome: '' @ e"

text \<open>The last of the lines of the trimmed response.\<close>

definition finalLine :: "jsstring \<Rightarrow> jsstring" where
  "finalLine content = last (split_str 0x0A (trim content))"

definition parseOutcome :: "jsstring \<Rightarrow> error + int" where
  "parseOutcome content =
     (case parseInt (finalLine content) of
        None \<Rightarrow> Inl (u16 ''Invalid outcome determined by AI'')
      | Some outcome \<Rightarrow>
          if outcome \<noteq> 0 \<and> outcome \<noteq> 1 then Inl (u16 ''Invalid outcome determined by AI'')
          else Inr outcome)"

definition determineOutcome ::
  "error + jsstring \<Rightarrow> json \<Rightarrow> jsstring \<Rightarrow> server \<Rightarrow> (error + int) \<times> server" where
  "determineOutcome reply description currentData s =
     (let s1 = record_call (AdjudicationCompletion description currentData) s
      in case reply of
           Inl e \<Rightarrow> (Inl (outcomeFailed e), s1)
         | Inr content \<Rightarrow>
             (case parseOutcome content of
                Inl e \<Rightarrow> (Inl (outcomeFailed e), s1)
              | Inr outcome \<Rightarrow> (Inr outcome, s1)))"

subsection \<open>The routes\<close>

text \<open>
  A response is its status and its JSON body. The body of a 500 response also has the
  field \<open>stack\<close>, the engine's stack trace, which is left out here.
\<close>

record response =
  status :: nat
  body :: json

definition badRequest :: "string \<Rightarrow> response" where
  "badRequest message =
     \<lparr>status = 400, body = JObject [(u16 ''error'', JString (u16 message))]\<rparr>"

definition serverError :: "error \<Rightarrow> response" where
  "serverError message = \<lparr>status = 500, body = JObject [(u16 ''error'', JString message)]\<rparr>"

definition ok :: "json \<Rightarrow> response" where
  "ok value = \<lparr>status = 200, body = value\<rparr>"

text \<open>
  The loop of \<open>POST /generate-predictions\<close> over the predictions; \<open>chain i\<close> is the chain
  during the submission of the prediction at index \<open>i\<close>.
\<close>

fun createEach ::
  "(nat \<Rightarrow> chain_world) \<Rightarrow> nat \<Rightarrow> obj list \<Rightarrow> json list \<Rightarrow> server
     \<Rightarrow> json list \<times> server" where
  "createEach chain i [] createdPredictions s = (createdPredictions, s)"
| "createEach chain i (prediction # rest) createdPredictions s =
     (case createPredictionOnContract (chain i) prediction s of
        (Inr txHash, s1) \<Rightarrow>
          createEach chain (Suc i) rest
            (createdPredictions @
               [JObject (set_prop (u16 ''transactionHash'') (JString txHash) prediction)]) s1
      | (Inl message, s1) \<Rightarrow>
          createEach chain (Suc i) rest
            (createdPredictions @
               [JObject (set_prop (u16 ''error'') (JString message) prediction)]) s1)"

definition post_generate_predictions ::
  "(jsstring \<Rightarrow> error + json) \<Rightarrow> generation_world \<Rightarrow> (nat \<Rightarrow> chain_world) \<Rightarrow> obj
     \<Rightarrow> server \<Rightarrow> response \<times> server" where
  "post_generate_predictions parse gw chain reqBody s =
     (case map_of reqBody (u16 ''topic'') of
        None \<Rightarrow> (badRequest ''Topic is required'', s)
      | Some topic \<Rightarrow>
          if \<not> truthy (Some topic) then (badRequest ''Topic is required'', s)
          else
            (case generatePredictions parse gw topic s of
               (Inl e, s1) \<Rightarrow> (serverError e, s1)
             | (Inr predictions, s1) \<Rightarrow>
                 (case createEach chain 0 predictions [] s1 of
                    (createdPredictions, s2) \<Rightarrow>
                      (ok (JObject [(u16 ''predictions'', JArray createdPredictions)]), s2))))"

definition post_test_generate_predictions ::
  "(jsstring \<Rightarrow> error + json) \<Rightarrow> generation_world \<Rightarrow> obj \<Rightarrow> server
     \<Rightarrow> response \<times> server" where
  "post_test_generate_predictions parse gw reqBody s =
     (case map_of reqBody (u16 ''topic'') of
        None \<Rightarrow> (badRequest ''Topic is required'', s)
      | Some topic \<Rightarrow>
          if \<not> truthy (Some topic) then (badRequest ''Topic is required'', s)
          else
            (case generatePredictions parse gw topic s of
               (Inl e, s1) \<Rightarrow> (serverError e, s1)
             | (Inr predictions, s1) \<Rightarrow>
                 (ok (JObject [(u16 ''predictions'', JArray (map JObject predictions))]), s1)))"

text \<open>
  \<open>POST /finalize-prediction/:id\<close>. The world: the description in the tuple that
  \<open>contract.getPredictionDetails\<close> returns, the retrieval digest, the completion, the hash
  of the transaction that \<open>contract.finalizePrediction\<close> returns and the receipt's block.
\<close>

record finalize_world =
  details :: "error + jsstring"
  digest :: "error + jsstring"
  judgement :: "error + jsstring"
  finalized :: "error + jsstring"
  mined :: "error + nat"

definition post_finalize_prediction ::
  "finalize_world \<Rightarrow> jsstring \<Rightarrow> server \<Rightarrow> response \<times> server" where
  "post_finalize_prediction w predictionId s =
     (let s1 = record_call (GetPredictionDetails predictionId) s
      in case details w of
           Inl e \<Rightarrow> (serverError e, s1)
         | Inr description \<Rightarrow>
             (case getPerplexityData (digest w) (JString description) s1 of
                (Inl e, s2) \<Rightarrow> (serverError e, s2)
              | (Inr currentData, s2) \<Rightarrow>
                  (case determineOutcome (judgement w) (JString description) currentData s2 of
                     (Inl e, s3) \<Rightarrow> (serverError e, s3)
                   | (Inr outcome, s3) \<Rightarrow>
                       (let s4 = record_call (FinalizePrediction predictionId outcome) s3
                        in case finalized w of
                             Inl e \<Rightarrow> (serverError e, s4)
                           | Inr txHash \<Rightarrow>
                               (let s5 = record_call (TxWait txHash) s4
                                in case mined w of
                                     Inl e \<Rightarrow> (serverError e, s5)
                                   | Inr blockNumber \<Rightarrow>
                                       (ok (JObject
                                          [(u16 ''message'',
                                            JString (u16 ''Prediction '' @ predictionId
                                              @ u16 '' finalized successfully'')),
                                           (u16 ''outcome'', JNumber (of_int outcome)),
                                           (u16 ''transactionHash'', JString txHash)]),
                                        s5))))))"

section \<open>Predicates of the statements\<close>

text \<open>The four policy fields of a normalized prediction.\<close>

definition policyCorrect :: "obj \<Rightarrow> bool" where
  "policyCorrect p \<longleftrightarrow>
     map_of p (u16 ''minVotes'') = Some (JNumber 1) \<and>
     map_of p (u16 ''maxVotes'') = Some (JNumber 1000) \<and>
     map_of p (u16 ''predictionType'') = Some (JNumber 0) \<and>
     map_of p (u16 ''optionsCount'') = Some (JNumber 2)"

text \<open>No error that the chain answers during a submission is a stale sequence.\<close>

definition noStale :: "chain_world \<Rightarrow> bool" where
  "noStale w =
     (case sent w of
        Inl e \<Rightarrow> \<not> staleSequence e
      | Inr txHash \<Rightarrow> (case confirmed w of Inl e \<Rightarrow> \<not> staleSequence e | Inr b \<Rightarrow> True))"

text \<open>
  The nonces a run is expected to carry when no stale sequence occurs: the first count,
  moved on by one after every submission the chain accepts for broadcast.
\<close>

fun noncesFrom :: "nat \<Rightarrow> chain_world list \<Rightarrow> nat list" where
  "noncesFrom n [] = []"
| "noncesFrom n (w # ws) = n # noncesFrom (if isl (sent w) then n else n + 1) ws"



text \<open>
  Where a task stands: past the answer to its \<open>createPrediction\<close> call, and past its
  test of the nonce and the fetch that may follow it.
\<close>

fun pastSend :: "task \<Rightarrow> bool" where
  "pastSend (AwaitConfirm txHash) = True"
| "pastSend (Finished r) = True"
| "pastSend t = False"

fun pastBegin :: "task \<Rightarrow> bool" where
  "pastBegin (Begin prediction) = False"
| "pastBegin (AwaitCount prediction) = False"
| "pastBegin t = True"

section \<open>Values used in the examples\<close>

text \<open>
  \<open>JSON.parse\<close> at the four texts the examples use: \<open>[]\<close>, \<open>[{},{},{}]\<close>,
  \<open>[{"minVotes":5},null]\<close> and \<open>[{"error":"x"}]\<close>. The theorems are stated for every
  parser; the examples need one that can be run, and no other text is given to it.
\<close>

definition sampleParse :: "jsstring \<Rightarrow> error + json" where
  "sampleParse text =
     (if text = u16 ''[]'' then Inr (JArray [])
      else if text = u16 ''[{},{},{}]'' then Inr (JArray [JObject [], JObject [], JObject []])
      else if text = u16 ''[{'' @ [0x22] @ u16 ''minVotes'' @ [0x22] @ u16 '':5},null]''
        then Inr (JArray [JObject [(u16 ''minVotes'', JNumber 5)], JNull])
      else if text = u16 ''[{'' @ [0x22] @ u16 ''error'' @ [0x22] @ u16 '':'' @ [0x22]
                       @ u16 ''x'' @ [0x22] @ u16 ''}]''
        then Inr (JArray [JObject [(u16 ''error'', JString (u16 ''x''))]])
      else Inl (u16 ''Unexpected token''))"

text \<open>A chain that accepts and confirms the transaction.\<close>

definition acceptingChain :: chain_world where
  "acceptingChain =
     \<lparr>transactionCount = Inr 7, sent = Inr (u16 ''0xabc''), confirmed = Inr 1\<rparr>"

text \<open>A chain that refuses the transaction for a reason other than its sequence.\<close>

definition revertingChain :: chain_world where
  "revertingChain =
     \<lparr>transactionCount = Inr 7, sent = Inl (u16 ''execution reverted''), confirmed = Inr 1\<rparr>"




text \<open>A finalization in which every stage succeeds and the adjudicator answers 1.\<close>

definition sampleFinalize :: finalize_world where
  "sampleFinalize =
     \<lparr>details = Inr (u16 ''X''), digest = Inr (u16 ''facts''),
        judgement = Inr (u16 ''It happened.'' @ [0x0A] @ u16 ''1''),
        finalized = Inr (u16 ''0xdef''), mined = Inr 12\<rparr>"

section \<open>Strings and objects: basic facts\<close>

lemmas string_eval =
  u16_def isWhiteSpace_def trim_def finalLine_def split_str_def parseInt_def
  isRadixDigit_def digitValue_def numeralValue_def

lemma split_from_nonempty: "split_from sep piece s \<noteq> []"
  by (induction s arbitrary: piece) auto

lemma last_split_from_nonempty:
  "piece @ s \<noteq> [] \<Longrightarrow> last (piece @ s) \<noteq> sep \<Longrightarrow> last (split_from sep piece s) \<noteq> []"
proof (induction s arbitrary: piece)
  case Nil
  then show ?case by simp
next
  case (Cons c cs)
  show ?case
  proof (cases "c = sep")
    case True
    with Cons.prems have "cs \<noteq> []" by auto
    with Cons.prems have "[] @ cs \<noteq> []" "last ([] @ cs) \<noteq> sep" by auto
    from Cons.IH [OF this] True show ?thesis by (simp add: split_from_nonempty)
  next
    case False
    from Cons.prems have "(piece @ [c]) @ cs \<noteq> []" "last ((piece @ [c]) @ cs) \<noteq> sep"
      by auto
    from Cons.IH [OF this] False show ?thesis by simp
  qed
qed

lemma trim_last: "trim s \<noteq> [] \<Longrightarrow> \<not> isWhiteSpace (last (trim s))"
  unfolding trim_def
  by (metis hd_dropWhile last_rev rev.simps(1))

lemma finalLine_nonempty: "trim content \<noteq> [] \<Longrightarrow> finalLine content \<noteq> []"
proof -
  assume ne: "trim content \<noteq> []"
  have "isWhiteSpace 0x0A" by (simp add: isWhiteSpace_def)
  with trim_last [OF ne] have "last (trim content) \<noteq> 0x0A" by auto
  with ne show ?thesis unfolding finalLine_def split_str_def
    using last_split_from_nonempty [of "[]" "trim content" "0x0A"] by simp
qed

lemma parseInt_0: "parseInt (u16 ''0'') = Some 0"
  by (simp add: string_eval)

lemma parseInt_1: "parseInt (u16 ''1'') = Some 1"
  by (simp add: string_eval)

lemma startsWith_append: "startsWith (p @ e) p"
  by (induction p) auto

lemma map_of_set_prop_same: "map_of (set_prop k v ps) k = Some v"
  by (induction ps) auto

lemma map_of_set_prop_other: "k' \<noteq> k \<Longrightarrow> map_of (set_prop k v ps) k' = map_of ps k'"
  by (induction ps) auto

lemma policy_keys_distinct:
  "u16 ''minVotes'' \<noteq> u16 ''maxVotes''" "u16 ''minVotes'' \<noteq> u16 ''predictionType''"
  "u16 ''minVotes'' \<noteq> u16 ''optionsCount''" "u16 ''maxVotes'' \<noteq> u16 ''predictionType''"
  "u16 ''maxVotes'' \<noteq> u16 ''optionsCount''" "u16 ''predictionType'' \<noteq> u16 ''optionsCount''"
  by (simp_all add: u16_def)

lemma withPolicy_fields:
  "map_of (withPolicy p) (u16 ''minVotes'') = Some (JNumber 1)"
  "map_of (withPolicy p) (u16 ''maxVotes'') = Some (JNumber 1000)"
  "map_of (withPolicy p) (u16 ''predictionType'') = Some (JNumber 0)"
  "map_of (withPolicy p) (u16 ''optionsCount'') = Some (JNumber 2)"
  unfolding withPolicy_def
  by (simp_all only: map_of_set_prop_same map_of_set_prop_other policy_keys_distinct
        policy_keys_distinct [symmetric] not_False_eq_True)

lemma mapPredictions_policy: "mapPredictions v = Inr ps \<Longrightarrow> list_all policyCorrect ps"
  by (auto simp: mapPredictions_def policyCorrect_def withPolicy_fields list_all_iff
        split: json.splits)

lemma falsy_values:
  "\<not> truthy (Some v) \<longleftrightarrow> v = JNull \<or> v = JBool False \<or> v = JNumber 0 \<or> v = JString []"
  by (cases v) auto

lemma parseOutcome_cases:
  "parseOutcome content =
     (if parseInt (finalLine content) = Some 0 then Inr 0
      else if parseInt (finalLine content) = Some 1 then Inr 1
      else Inl (u16 ''Invalid outcome determined by AI''))"
  by (auto simp: parseOutcome_def split: option.splits)

section \<open>The adjudicator\<close>

text \<open>
  C2, as the claim states it, fails: a response whose final line is \<open>1 (true)\<close>, which is
  not exactly \<open>1\<close>, is adjudicated 1, since \<open>parseInt\<close> reads the leading numeral and
  ignores what follows it.
\<close>

theorem determineOutcome_lenient_counterexample:
  "finalLine (u16 ''It happened.'' @ [0x0A] @ u16 ''1 (true)'') = u16 ''1 (true)'' \<and>
   u16 ''1 (true)'' \<noteq> u16 ''1'' \<and> u16 ''1 (true)'' \<noteq> u16 ''0'' \<and>
   fst (determineOutcome (Inr (u16 ''It happened.'' @ [0x0A] @ u16 ''1 (true)''))
          (JString (u16 ''X'')) (u16 ''facts'') \<lparr>currentNonce = None, calls = []\<rparr>) = Inr 1"
  by (simp add: determineOutcome_def parseOutcome_def string_eval)

text \<open>
  C2, amended: the adjudicator applies \<open>parseInt\<close> to the last line of the trimmed
  response, a line that is not empty unless the whole response is blank. It returns 0 or 1
  when \<open>parseInt\<close> of that line is 0 or 1, so in particular when the line is exactly \<open>0\<close>
  or \<open>1\<close>, and fails with the adjudication error in every other case, with no default.
  Whatever the completion service answers, no value outside 0 and 1 is returned.
\<close>

theorem determineOutcome_verdict:
  "fst (determineOutcome (Inr content) description currentData s) =
     (if parseInt (finalLine content) = Some 0 then Inr 0
      else if parseInt (finalLine content) = Some 1 then Inr 1
      else Inl (u16 ''Failed to determine outcome: Invalid outcome determined by AI''))
   \<and> fst (determineOutcome reply description currentData s) \<in> range Inl \<union> {Inr 0, Inr 1}
   \<and> (trim content \<noteq> [] \<longrightarrow> finalLine content \<noteq> [])
   \<and> (finalLine content = u16 ''0'' \<longrightarrow>
        fst (determineOutcome (Inr content) description currentData s) = Inr 0)
   \<and> (finalLine content = u16 ''1'' \<longrightarrow>
        fst (determineOutcome (Inr content) description currentData s) = Inr 1)"
proof -
  have run: "fst (determineOutcome (Inr content) description currentData s) =
     (if parseInt (finalLine content) = Some 0 then Inr 0
      else if parseInt (finalLine content) = Some 1 then Inr 1
      else Inl (u16 ''Failed to determine outcome: Invalid outcome determined by AI''))"
    by (simp add: determineOutcome_def parseOutcome_cases outcomeFailed_def Let_def u16_def)
  have range: "fst (determineOutcome reply description currentData s)
      \<in> range Inl \<union> {Inr 0, Inr 1}"
    by (auto simp: determineOutcome_def parseOutcome_cases Let_def split: sum.splits)
  from run range show ?thesis
    by (simp add: finalLine_nonempty parseInt_0 parseInt_1)
qed

theorem determineOutcome_verdict_witness:
  "trim (u16 ''It happened.'' @ [0x0A] @ u16 ''1'') \<noteq> [] \<and>
   finalLine (u16 ''It happened.'' @ [0x0A] @ u16 ''1'') = u16 ''1'' \<and>
   fst (determineOutcome (Inr (u16 ''It happened.'' @ [0x0A] @ u16 ''1''))
          (JString (u16 ''X'')) (u16 ''facts'') \<lparr>currentNonce = None, calls = []\<rparr>) = Inr 1"
proof -
  have line: "finalLine (u16 ''It happened.'' @ [0x0A] @ u16 ''1'') = u16 ''1''"
    by (simp add: string_eval)
  have full: "trim (u16 ''It happened.'' @ [0x0A] @ u16 ''1'') \<noteq> []"
    by (simp add: string_eval)
  have "finalLine (u16 ''It happened.'' @ [0x0A] @ u16 ''1'') = u16 ''1'' \<longrightarrow>
      fst (determineOutcome (Inr (u16 ''It happened.'' @ [0x0A] @ u16 ''1''))
          (JString (u16 ''X'')) (u16 ''facts'') \<lparr>currentNonce = None, calls = []\<rparr>) = Inr 1"
    using determineOutcome_verdict [of "u16 ''It happened.'' @ [0x0A] @ u16 ''1''"
      "JString (u16 ''X'')" "u16 ''facts''" "\<lparr>currentNonce = None, calls = []\<rparr>"]
    by blast
  with line full show ?thesis by blast
qed

section \<open>The generator\<close>

text \<open>
  C3, as the claim states it, fails: when the model answers with the empty array, the
  generator returns the empty sequence and does not fail.
\<close>

theorem generatePredictions_empty_counterexample:
  "fst (generatePredictions sampleParse
          \<lparr>perplexity = Inr (u16 ''facts''), completion = Inr (u16 ''[]'')\<rparr>
          (JString (u16 ''chess'')) \<lparr>currentNonce = None, calls = []\<rparr>) = Inr []"
  by (simp add: generatePredictions_def getPerplexityData_def sampleParse_def
        mapPredictions_def Let_def)

text \<open>
  C3, amended: for every topic, every parser and every answer of the services, the
  generator either fails with the generation error or returns a sequence, which may be
  empty, in which every item has \<open>minVotes = 1\<close>, \<open>maxVotes = 1000\<close>,
  \<open>predictionType = 0\<close> and \<open>optionsCount = 2\<close>, whatever the model supplied for these
  fields; it never returns a mix.
\<close>

theorem generatePredictions_policy:
  "case fst (generatePredictions parse w topic s) of
     Inl e \<Rightarrow> startsWith e (u16 ''Failed to generate predictions: '')
   | Inr predictions \<Rightarrow> list_all policyCorrect predictions"
  by (auto simp: generatePredictions_def getPerplexityData_def generationFailed_def
        startsWith_append Let_def dest: mapPredictions_policy split: sum.splits)

theorem generatePredictions_policy_witness:
  "fst (generatePredictions sampleParse
          \<lparr>perplexity = Inr (u16 ''facts''),
             completion =
               Inr (u16 ''[{'' @ [0x22] @ u16 ''minVotes'' @ [0x22] @ u16 '':5},null]'')\<rparr>
          (JString (u16 ''chess'')) \<lparr>currentNonce = None, calls = []\<rparr>)
     = Inr [withPolicy (JObject [(u16 ''minVotes'', JNumber 5)]), withPolicy JNull]
   \<and> list_all policyCorrect
       [withPolicy (JObject [(u16 ''minVotes'', JNumber 5)]), withPolicy JNull]
   \<and> map_of (withPolicy (JObject [(u16 ''minVotes'', JNumber 5)])) (u16 ''minVotes'')
       = Some (JNumber 1)"
proof -
  let ?w = "\<lparr>perplexity = Inr (u16 ''facts''),
             completion =
               Inr (u16 ''[{'' @ [0x22] @ u16 ''minVotes'' @ [0x22] @ u16 '':5},null]'')\<rparr>"
  let ?s = "\<lparr>currentNonce = None, calls = []\<rparr>"
  have run: "fst (generatePredictions sampleParse ?w (JString (u16 ''chess'')) ?s)
     = Inr [withPolicy (JObject [(u16 ''minVotes'', JNumber 5)]), withPolicy JNull]"
    by (simp add: generatePredictions_def getPerplexityData_def sampleParse_def
          mapPredictions_def u16_def Let_def)
  from generatePredictions_policy [of sampleParse ?w "JString (u16 ''chess'')" ?s] run
  show ?thesis by (simp add: policyCorrect_def)
qed

section \<open>The guard on the topic\<close>

text \<open>
  C9: a request to \<open>POST /generate-predictions\<close> whose body has no topic is answered
  with status 400 and an error field, and the server is left as it was: no call to the
  retrieval service, to the completion service or to the chain is made.
\<close>

theorem missing_topic_400:
  "map_of reqBody (u16 ''topic'') = None \<Longrightarrow>
   post_generate_predictions parse gw chain reqBody s =
     (\<lparr>status = 400, body = JObject [(u16 ''error'', JString (u16 ''Topic is required''))]\<rparr>,
      s)"
  by (simp add: post_generate_predictions_def badRequest_def)

theorem missing_topic_400_witness:
  "map_of ([] :: obj) (u16 ''topic'') = None \<and>
   post_generate_predictions sampleParse
       \<lparr>perplexity = Inr (u16 ''facts''), completion = Inr (u16 ''[]'')\<rparr>
       (\<lambda>i. \<lparr>transactionCount = Inr 7, sent = Inr (u16 ''0xabc''), confirmed = Inr 1\<rparr>)
       [] \<lparr>currentNonce = None, calls = []\<rparr> =
     (\<lparr>status = 400, body = JObject [(u16 ''error'', JString (u16 ''Topic is required''))]\<rparr>,
      \<lparr>currentNonce = None, calls = []\<rparr>)"
  using missing_topic_400 [of "[]" sampleParse
       "\<lparr>perplexity = Inr (u16 ''facts''), completion = Inr (u16 ''[]'')\<rparr>"
       "\<lambda>i. \<lparr>transactionCount = Inr 7, sent = Inr (u16 ''0xabc''), confirmed = Inr 1\<rparr>"
       "\<lparr>currentNonce = None, calls = []\<rparr>"]
  by simp

text \<open>
  C10: a request to \<open>POST /generate-predictions\<close> or to
  \<open>POST /test/generate-predictions\<close> whose topic is present and falsy (the empty string,
  \<open>null\<close>, \<open>false\<close> or 0) is answered with status 400 and an error field as well, and
  the server is left as it was: the guard tests the truthiness of the topic.
\<close>

theorem falsy_topic_400:
  "map_of reqBody (u16 ''topic'') = Some topic \<Longrightarrow>
   topic = JString [] \<or> topic = JNull \<or> topic = JBool False \<or> topic = JNumber 0 \<Longrightarrow>
   post_generate_predictions parse gw chain reqBody s =
     (\<lparr>status = 400, body = JObject [(u16 ''error'', JString (u16 ''Topic is required''))]\<rparr>,
      s)
   \<and> post_test_generate_predictions parse gw reqBody s =
     (\<lparr>status = 400, body = JObject [(u16 ''error'', JString (u16 ''Topic is required''))]\<rparr>,
      s)"
  by (auto simp: post_generate_predictions_def post_test_generate_predictions_def
        badRequest_def)

theorem falsy_topic_400_witness:
  "map_of [(u16 ''topic'', JString [])] (u16 ''topic'') = Some (JString []) \<and>
   post_generate_predictions sampleParse
       \<lparr>perplexity = Inr (u16 ''facts''), completion = Inr (u16 ''[]'')\<rparr>
       (\<lambda>i. \<lparr>transactionCount = Inr 7, sent = Inr (u16 ''0xabc''), confirmed = Inr 1\<rparr>)
       [(u16 ''topic'', JString [])] \<lparr>currentNonce = Some 3, calls = []\<rparr> =
     (\<lparr>status = 400, body = JObject [(u16 ''error'', JString (u16 ''Topic is required''))]\<rparr>,
      \<lparr>currentNonce = Some 3, calls = []\<rparr>)
   \<and> post_test_generate_predictions sampleParse
       \<lparr>perplexity = Inr (u16 ''facts''), completion = Inr (u16 ''[]'')\<rparr>
       [(u16 ''topic'', JString [])] \<lparr>currentNonce = Some 3, calls = []\<rparr> =
     (\<lparr>status = 400, body = JObject [(u16 ''error'', JString (u16 ''Topic is required''))]\<rparr>,
      \<lparr>currentNonce = Some 3, calls = []\<rparr>)"
  using falsy_topic_400 [of "[(u16 ''topic'', JString [])]" "JString []" sampleParse
       "\<lparr>perplexity = Inr (u16 ''facts''), completion = Inr (u16 ''[]'')\<rparr>"
       "\<lambda>i. \<lparr>transactionCount = Inr 7, sent = Inr (u16 ''0xabc''), confirmed = Inr 1\<rparr>"
       "\<lparr>currentNonce = Some 3, calls = []\<rparr>"]
  by simp

section \<open>The sequencer\<close>

lemmas create_eval =
  createPredictionOnContract_def createFailed_def staleSequence_def record_call_def
  increment_def contractArgs_def Let_def

lemma nonces_append: "nonces (xs @ ys) = nonces xs @ nonces ys"
  by (induction xs rule: nonces.induct) auto



lemma create_step_cached:
  "currentNonce s = Some n \<Longrightarrow> noStale w \<Longrightarrow>
   currentNonce (snd (createPredictionOnContract w p s))
     = Some (if isl (sent w) then n else n + 1) \<and>
   nonces (calls (snd (createPredictionOnContract w p s))) = nonces (calls s) @ [n]"
  by (auto simp: create_eval noStale_def nonces_append split: sum.splits)

lemma create_step_fetched:
  "currentNonce s = None \<Longrightarrow> transactionCount w = Inr c \<Longrightarrow> noStale w \<Longrightarrow>
   currentNonce (snd (createPredictionOnContract w p s))
     = Some (if isl (sent w) then c else c + 1) \<and>
   nonces (calls (snd (createPredictionOnContract w p s))) = nonces (calls s) @ [c]"
  by (auto simp: create_eval noStale_def nonces_append split: sum.splits)

lemma submitAll_cached:
  "currentNonce s = Some n \<Longrightarrow> list_all noStale (map fst run) \<Longrightarrow>
   nonces (calls (submitAll run s)) = nonces (calls s) @ noncesFrom n (map fst run)"
proof (induction run arbitrary: s n)
  case Nil
  then show ?case by simp
next
  case (Cons a run)
  obtain w p where a: "a = (w, p)" by (cases a)
  from Cons.prems a have w: "noStale w" and rest: "list_all noStale (map fst run)" by auto
  from create_step_cached [OF Cons.prems(1) w, of p]
  have n': "currentNonce (snd (createPredictionOnContract w p s))
              = Some (if isl (sent w) then n else n + 1)"
    and log: "nonces (calls (snd (createPredictionOnContract w p s))) = nonces (calls s) @ [n]"
    by auto
  from Cons.IH [OF n' rest] log a show ?case by simp
qed

lemma noncesFrom_accepted:
  "list_all (\<lambda>w. \<not> isl (sent w)) ws \<Longrightarrow> noncesFrom n ws = [n ..< n + length ws]"
proof (induction ws arbitrary: n)
  case Nil
  then show ?case by simp
next
  case (Cons w ws)
  have "noncesFrom n (w # ws) = n # noncesFrom (Suc n) ws" using Cons.prems by simp
  also have "noncesFrom (Suc n) ws = [Suc n ..< Suc n + length ws]"
    using Cons by simp
  also have "n # [Suc n ..< Suc n + length ws] = [n ..< n + length (w # ws)]"
  proof -
    have "n < n + length (w # ws)" by simp
    from upt_conv_Cons [OF this] show ?thesis by (simp del: upt_Suc)
  qed
  finally show ?case .
qed

text \<open>
  C1, amended: in a run of sequential submissions that starts with the nonce
  uninitialized, in which the first fetch of the transaction count gives \<open>base\<close> and no
  error is a stale sequence, every submission carries \<open>base\<close> plus the number of
  earlier submissions that the chain accepted for broadcast. When all \<open>N\<close> submissions
  are accepted the nonces are \<open>base, base+1, ..., base+N-1\<close>, with no repeats and no gaps.
\<close>

theorem nonce_monotonicity:
  assumes "currentNonce s = None"
    and "transactionCount w = Inr base"
    and "list_all noStale (w # map fst rest)"
  shows "nonces (calls (submitAll ((w, p) # rest) s))
           = nonces (calls s) @ noncesFrom base (w # map fst rest)
         \<and> (list_all (\<lambda>w. \<not> isl (sent w)) (w # map fst rest) \<longrightarrow>
              nonces (calls (submitAll ((w, p) # rest) s))
                = nonces (calls s) @ [base ..< base + Suc (length rest)])"
proof -
  from assms have w: "noStale w" and rest: "list_all noStale (map fst rest)" by auto
  from create_step_fetched [OF assms(1,2) w, of p]
  have n': "currentNonce (snd (createPredictionOnContract w p s))
              = Some (if isl (sent w) then base else base + 1)"
    and log: "nonces (calls (snd (createPredictionOnContract w p s)))
              = nonces (calls s) @ [base]"
    by auto
  from submitAll_cached [OF n' rest] log
  have run: "nonces (calls (submitAll ((w, p) # rest) s))
           = nonces (calls s) @ noncesFrom base (w # map fst rest)"
    by simp
  have "list_all (\<lambda>w. \<not> isl (sent w)) (w # map fst rest) \<longrightarrow>
          noncesFrom base (w # map fst rest) = [base ..< base + Suc (length rest)]"
    using noncesFrom_accepted [of "w # map fst rest" base] by simp
  with run show ?thesis by simp
qed

text \<open>
  C1, as the claim states it, fails: a submission that the chain refuses for a reason
  other than its sequence leaves the nonce where it was, and the next submission carries
  the same nonce again. Two submissions, the first refused with \<open>execution reverted\<close>,
  carry 7 and 7, not 7 and 8.
\<close>

theorem nonce_reuse_counterexample:
  "noStale revertingChain \<and> noStale acceptingChain \<and>
   nonces (calls (submitAll [(revertingChain, []), (acceptingChain, [])]
                    \<lparr>currentNonce = None, calls = []\<rparr>)) = [7, 7]"
  by (simp add: revertingChain_def acceptingChain_def noStale_def create_eval u16_def)

theorem nonce_monotonicity_witness:
  "currentNonce \<lparr>currentNonce = None, calls = []\<rparr> = None \<and>
   transactionCount acceptingChain = Inr 7 \<and>
   list_all noStale [acceptingChain, revertingChain, acceptingChain] \<and>
   nonces (calls (submitAll [(acceptingChain, []), (revertingChain, []), (acceptingChain, [])]
                    \<lparr>currentNonce = None, calls = []\<rparr>)) = [7, 8, 8]"
proof -
  have h1: "currentNonce \<lparr>currentNonce = None, calls = []\<rparr> = None" by simp
  have h2: "transactionCount acceptingChain = Inr 7" by (simp add: acceptingChain_def)
  have h3: "list_all noStale (acceptingChain # map fst [(revertingChain, [] :: obj), (acceptingChain, [])])"
    by (simp add: revertingChain_def acceptingChain_def noStale_def staleSequence_def u16_def)
  have "nonces (calls (submitAll ((acceptingChain, []) # [(revertingChain, []), (acceptingChain, [])])
                    \<lparr>currentNonce = None, calls = []\<rparr>))
        = nonces (calls \<lparr>currentNonce = None, calls = []\<rparr>)
            @ noncesFrom 7 (acceptingChain # map fst [(revertingChain, [] :: obj), (acceptingChain, [])])"
    using nonce_monotonicity [OF h1 h2 h3, of "[]"] by (elim conjE)
  then have "nonces (calls (submitAll [(acceptingChain, []), (revertingChain, []), (acceptingChain, [])]
                    \<lparr>currentNonce = None, calls = []\<rparr>)) = [7, 8, 8]"
    by (simp add: revertingChain_def acceptingChain_def)
  with h1 h2 h3 show ?thesis by simp
qed

section \<open>The creation flow\<close>












section \<open>The finalization flow\<close>

lemma parseOutcome_range: "parseOutcome content = Inr v \<Longrightarrow> v = 0 \<or> v = 1"
  by (auto simp: parseOutcome_cases split: if_splits)

lemma finalize_keeps_nonce:
  "currentNonce (snd (post_finalize_prediction w predictionId s)) = currentNonce s"
  by (auto simp: post_finalize_prediction_def getPerplexityData_def determineOutcome_def
        record_call_def Let_def split: sum.splits)

text \<open>
  When every stage of a finalization succeeds and the adjudicator returns \<open>v\<close>, the
  verdict argument of \<open>contract.finalizePrediction\<close> is \<open>v\<close>, which is 0 or 1, and the
  response returns \<open>v\<close> and the hash of that transaction.
\<close>

lemma finalize_verdict:
  assumes "details w = Inr description" and "digest w = Inr currentData"
    and "judgement w = Inr content" and "parseOutcome content = Inr v"
    and "finalized w = Inr txHash" and "mined w = Inr blockNumber"
  shows "post_finalize_prediction w predictionId s =
     (\<lparr>status = 200,
        body = JObject
          [(u16 ''message'',
            JString (u16 ''Prediction '' @ predictionId @ u16 '' finalized successfully'')),
           (u16 ''outcome'', JNumber (of_int v)),
           (u16 ''transactionHash'', JString txHash)]\<rparr>,
      s\<lparr>calls := calls s @
          [GetPredictionDetails predictionId,
           PerplexityPost (JString description),
           AdjudicationCompletion (JString description) currentData,
           FinalizePrediction predictionId v,
           TxWait txHash]\<rparr>)
   \<and> (v = 0 \<or> v = 1)"
proof -
  from assms have "post_finalize_prediction w predictionId s =
     (\<lparr>status = 200,
        body = JObject
          [(u16 ''message'',
            JString (u16 ''Prediction '' @ predictionId @ u16 '' finalized successfully'')),
           (u16 ''outcome'', JNumber (of_int v)),
           (u16 ''transactionHash'', JString txHash)]\<rparr>,
      s\<lparr>calls := calls s @
          [GetPredictionDetails predictionId,
           PerplexityPost (JString description),
           AdjudicationCompletion (JString description) currentData,
           FinalizePrediction predictionId v,
           TxWait txHash]\<rparr>)"
    by (simp add: post_finalize_prediction_def getPerplexityData_def determineOutcome_def
          record_call_def ok_def Let_def)
  with parseOutcome_range [OF assms(4)] show ?thesis by simp
qed

text \<open>
  C8: the claim has the finalize transaction submitted through the nonce-managed path, as
  \<open>createPredictionOnContract\<close> submits, with the verdict as its argument. The route
  does pass the verdict, but it calls \<open>contract.finalizePrediction\<close> itself, with no
  nonce, and leaves \<open>currentNonce\<close> as it found it. A creation, a finalization and a
  second creation show it: the creation submits with nonce 7 and moves the nonce on to 8,
  the finalization sends a transaction of the same wallet and the nonce is still 8, and
  the second creation submits with 8, a sequence number the finalize transaction has used.
\<close>

theorem finalize_leaves_nonce_behind:
  "createPredictionOnContract acceptingChain [] \<lparr>currentNonce = None, calls = []\<rparr>
     = (Inr (u16 ''0xabc''),
        \<lparr>currentNonce = Some 8,
           calls = [GetTransactionCount, CreatePrediction (contractArgs []) 7,
                    TxWait (u16 ''0xabc'')]\<rparr>)
   \<and> post_finalize_prediction sampleFinalize (u16 ''42'')
        \<lparr>currentNonce = Some 8,
           calls = [GetTransactionCount, CreatePrediction (contractArgs []) 7,
                    TxWait (u16 ''0xabc'')]\<rparr>
     = (\<lparr>status = 200,
          body = JObject
            [(u16 ''message'', JString (u16 ''Prediction 42 finalized successfully'')),
             (u16 ''outcome'', JNumber 1),
             (u16 ''transactionHash'', JString (u16 ''0xdef''))]\<rparr>,
        \<lparr>currentNonce = Some 8,
           calls = [GetTransactionCount, CreatePrediction (contractArgs []) 7,
                    TxWait (u16 ''0xabc''),
                    GetPredictionDetails (u16 ''42''),
                    PerplexityPost (JString (u16 ''X'')),
                    AdjudicationCompletion (JString (u16 ''X'')) (u16 ''facts''),
                    FinalizePrediction (u16 ''42'') 1,
                    TxWait (u16 ''0xdef'')]\<rparr>)
   \<and> calls (snd (createPredictionOnContract acceptingChain []
        \<lparr>currentNonce = Some 8,
           calls = [GetTransactionCount, CreatePrediction (contractArgs []) 7,
                    TxWait (u16 ''0xabc''),
                    GetPredictionDetails (u16 ''42''),
                    PerplexityPost (JString (u16 ''X'')),
                    AdjudicationCompletion (JString (u16 ''X'')) (u16 ''facts''),
                    FinalizePrediction (u16 ''42'') 1,
                    TxWait (u16 ''0xdef'')]\<rparr>))
     = [GetTransactionCount, CreatePrediction (contractArgs []) 7, TxWait (u16 ''0xabc''),
        GetPredictionDetails (u16 ''42''),
        PerplexityPost (JString (u16 ''X'')),
        AdjudicationCompletion (JString (u16 ''X'')) (u16 ''facts''),
        FinalizePrediction (u16 ''42'') 1,
        TxWait (u16 ''0xdef''),
        CreatePrediction (contractArgs []) 8, TxWait (u16 ''0xabc'')]"
  by (simp add: acceptingChain_def createPredictionOnContract_def record_call_def
        increment_def post_finalize_prediction_def getPerplexityData_def
        determineOutcome_def parseOutcome_def sampleFinalize_def ok_def Let_def string_eval)

section \<open>Submissions in flight together\<close>

text \<open>Run alone, the task computes what \<open>createPredictionOnContract\<close> computes.\<close>

lemma resume_sequential:
  "interleave w wB [True, True, True, True] (Begin p, tB, s) =
     (Finished (fst (createPredictionOnContract w p s)), tB,
      snd (createPredictionOnContract w p s))"
  by (auto simp: createPredictionOnContract_def finish_def record_call_def Let_def
        split: option.splits sum.splits)

lemma resume_past_send:
  assumes "noStale w" and "sent w = Inr h" and "pastSend t"
  shows "pastSend (fst (resume w t s)) \<and> snd (resume w t s) = s"
  using assms
  by (cases t) (auto simp: noStale_def finish_def createFailed_def split: sum.splits)

lemma resume_past_begin:
  assumes "pastBegin t"
  shows "pastBegin (fst (resume w t s)) \<and>
         nonces (calls (snd (resume w t s))) = nonces (calls s) \<and>
         count_list (calls (snd (resume w t s))) GetTransactionCount
           = count_list (calls s) GetTransactionCount"
  using assms
  by (cases t)
     (auto simp: finish_def createFailed_def record_call_def nonces_append
        split: sum.splits)

lemma resume_begin_cached:
  "currentNonce s = Some n \<Longrightarrow>
   resume w (Begin p) s = (AwaitSend p, record_call (CreatePrediction (contractArgs p) n) s)"
  by simp

lemma interleave_after_acceptance:
  assumes "noStale wA" and "sent wA = Inr hA" and "pastSend tA"
    and "count_list (calls s) GetTransactionCount = 1"
    and "(tB = Begin pB \<and> currentNonce s = Some (Suc base) \<and> nonces (calls s) = [base])
         \<or> (pastBegin tB \<and> nonces (calls s) = [base, Suc base])"
  shows "count_list (calls (snd (snd (interleave wA wB rest (tA, tB, s))))) GetTransactionCount = 1
       \<and> nonces (calls (snd (snd (interleave wA wB rest (tA, tB, s)))))
           = (if tB = Begin pB \<and> False \<notin> set rest then [base] else [base, Suc base])"
  using assms(3-5)
proof (induction rest arbitrary: tA tB s)
  case Nil
  then show ?case by auto
next
  case (Cons turn rest)
  show ?case
  proof (cases turn)
    case True
    from resume_past_send [OF assms(1,2) Cons.prems(1), of s]
    have tA': "pastSend (fst (resume wA tA s))" and s': "snd (resume wA tA s) = s" by auto
    from Cons.IH [OF tA', of s tB] Cons.prems(2,3) s' True show ?thesis by simp
  next
    case False
    from Cons.prems(3) show ?thesis
    proof
      assume b: "tB = Begin pB \<and> currentNonce s = Some (Suc base) \<and> nonces (calls s) = [base]"
      let ?s' = "record_call (CreatePrediction (contractArgs pB) (Suc base)) s"
      from b have step: "resume wB tB s = (AwaitSend pB, ?s')" by simp
      have c: "count_list (calls ?s') GetTransactionCount = 1"
        using Cons.prems(2) by (simp add: record_call_def)
      have n: "pastBegin (AwaitSend pB) \<and> nonces (calls ?s') = [base, Suc base]"
        using b by (simp add: record_call_def nonces_append)
      from Cons.IH [OF Cons.prems(1) c, of "AwaitSend pB"] n
      have "count_list (calls (snd (snd (interleave wA wB rest (tA, AwaitSend pB, ?s')))))
              GetTransactionCount = 1
          \<and> nonces (calls (snd (snd (interleave wA wB rest (tA, AwaitSend pB, ?s')))))
              = [base, Suc base]"
        by simp
      with step False show ?thesis by simp
    next
      assume b: "pastBegin tB \<and> nonces (calls s) = [base, Suc base]"
      then have notBegin: "tB \<noteq> Begin pB" by auto
      let ?t' = "fst (resume wB tB s)" and ?s' = "snd (resume wB tB s)"
      from resume_past_begin [of tB wB s] b Cons.prems(2)
      have t': "pastBegin ?t'" and n: "nonces (calls ?s') = [base, Suc base]"
        and c: "count_list (calls ?s') GetTransactionCount = 1"
        by auto
      from t' have "?t' \<noteq> Begin pB" by auto
      with Cons.IH [OF Cons.prems(1) c, of ?t'] t' n
      have "count_list (calls (snd (snd (interleave wA wB rest (tA, ?t', ?s')))))
              GetTransactionCount = 1
          \<and> nonces (calls (snd (snd (interleave wA wB rest (tA, ?t', ?s')))))
              = [base, Suc base]"
        by simp
      with False notBegin show ?thesis by simp
    qed
  qed
qed

text \<open>
  C6, as the claim states it, fails: nothing holds the second submission back while the
  first one's read of the transaction count is pending. When both test the nonce before
  either read returns, both read the chain, and both submit with the count they read.
\<close>

theorem double_fetch_counterexample:
  "interleave acceptingChain acceptingChain [True, False, True, False]
     (Begin [], Begin [], \<lparr>currentNonce = None, calls = []\<rparr>)
   = (AwaitSend [], AwaitSend [],
      \<lparr>currentNonce = Some 7,
         calls = [GetTransactionCount, GetTransactionCount,
                  CreatePrediction (contractArgs []) 7,
                  CreatePrediction (contractArgs []) 7]\<rparr>)"
  by (simp add: acceptingChain_def record_call_def)

text \<open>
  C6, amended: when the second submission tests the nonce after the first, which found
  it uninitialized, has read the transaction count \<open>base\<close> and has been accepted for
  broadcast, and the first one's confirmation does not fail with a stale sequence, then
  however the two are interleaved from there on, only the first reads the chain, and the
  second observes the value incremented by the first: it submits with \<open>base + 1\<close>.
\<close>

theorem single_fetch_after_acceptance:
  assumes "transactionCount wA = Inr base" and "sent wA = Inr hA" and "noStale wA"
  shows "count_list
           (calls (snd (snd (interleave wA wB (True # True # True # rest)
              (Begin pA, Begin pB, \<lparr>currentNonce = None, calls = []\<rparr>)))))
           GetTransactionCount = 1
       \<and> nonces
           (calls (snd (snd (interleave wA wB (True # True # True # rest)
              (Begin pA, Begin pB, \<lparr>currentNonce = None, calls = []\<rparr>)))))
           = (if False \<in> set rest then [base, base + 1] else [base])"
proof -
  let ?s = "\<lparr>currentNonce = Some (Suc base),
              calls = [GetTransactionCount, CreatePrediction (contractArgs pA) base,
                       TxWait hA]\<rparr>"
  have start: "interleave wA wB (True # True # True # rest)
                 (Begin pA, Begin pB, \<lparr>currentNonce = None, calls = []\<rparr>)
               = interleave wA wB rest (AwaitConfirm hA, Begin pB, ?s)"
    using assms(1,2) by (simp add: record_call_def increment_def)
  have "count_list (calls ?s) GetTransactionCount = 1" by simp
  moreover have "(Begin pB = Begin pB \<and> currentNonce ?s = Some (Suc base)
                    \<and> nonces (calls ?s) = [base])
                 \<or> (pastBegin (Begin pB) \<and> nonces (calls ?s) = [base, Suc base])"
    by simp
  ultimately have
    "count_list (calls (snd (snd (interleave wA wB rest (AwaitConfirm hA, Begin pB, ?s)))))
       GetTransactionCount = 1
     \<and> nonces (calls (snd (snd (interleave wA wB rest (AwaitConfirm hA, Begin pB, ?s)))))
         = (if Begin pB = Begin pB \<and> False \<notin> set rest then [base] else [base, Suc base])"
    using interleave_after_acceptance [OF assms(3,2), of "AwaitConfirm hA" ?s "Begin pB" pB base]
    by simp
  with start show ?thesis by auto
qed

theorem single_fetch_after_acceptance_witness:
  "transactionCount acceptingChain = Inr 7 \<and> sent acceptingChain = Inr (u16 ''0xabc'') \<and>
   noStale acceptingChain \<and>
   count_list
     (calls (snd (snd (interleave acceptingChain revertingChain
        [True, True, True, False, True, False]
        (Begin [], Begin [], \<lparr>currentNonce = None, calls = []\<rparr>)))))
     GetTransactionCount = 1 \<and>
   nonces
     (calls (snd (snd (interleave acceptingChain revertingChain
        [True, True, True, False, True, False]
        (Begin [], Begin [], \<lparr>currentNonce = None, calls = []\<rparr>))))) = [7, 8]"
proof -
  have h1: "transactionCount acceptingChain = Inr 7"
    and h2: "sent acceptingChain = Inr (u16 ''0xabc'')"
    and h3: "noStale acceptingChain"
    by (simp_all add: acceptingChain_def noStale_def)
  from single_fetch_after_acceptance [OF h1 h2 h3, of revertingChain "[False, True, False]"
      "[]" "[]"] h1 h2 h3
  show ?thesis by simp
qed

section \<open>Failed submissions\<close>







section \<open>Acceptance and confirmation\<close>




end
